theory Spec2Isabelle
  imports Main
begin

section \<open>Constants of the headers\<close>

text \<open>
  The values below are those of \<^verbatim>\<open>clp-app-mgr.h\<close>, \<^verbatim>\<open>clp-app-mgr-config.h\<close> (both are
  part of the source tree) and of the top of \<^verbatim>\<open>limo-app-mgr-lib.c\<close>.
\<close>

definition NAME_SIZE :: nat where
  "NAME_SIZE = 256"

definition MAX_SIZE :: nat where
  "MAX_SIZE = 256"

definition GCONF_APPS_DIR :: string where
  "GCONF_APPS_DIR = ''/appmgr''"

definition LIMO_APPS_DIR :: string where
  "LIMO_APPS_DIR = ''/LiMo/System/AppInfo''"

definition CLP_APP_MGR_DBUS_INTERFACE :: string where
  "CLP_APP_MGR_DBUS_INTERFACE = ''org.clp.appmanager''"

definition CLP_APP_MGR_DBUS_OBJECT :: string where
  "CLP_APP_MGR_DBUS_OBJECT = ''/org/clp/appmanager''"

definition CLP_WIN_MGR_DBUS_INTERFACE :: string where
  "CLP_WIN_MGR_DBUS_INTERFACE = ''org.clp.matchboxwm''"

definition CLP_APP_MGR_DBUS_SIGNAL_STOP :: string where
  "CLP_APP_MGR_DBUS_SIGNAL_STOP = ''stop''"

definition CLP_APP_MGR_DBUS_SIGNAL_EXEC :: string where
  "CLP_APP_MGR_DBUS_SIGNAL_EXEC = ''exec''"

definition CLP_APP_MGR_DBUS_SIGNAL_ROTATE :: string where
  "CLP_APP_MGR_DBUS_SIGNAL_ROTATE = ''rotate''"

definition CLP_APP_MGR_DBUS_SIGNAL_APPEXIT :: string where
  "CLP_APP_MGR_DBUS_SIGNAL_APPEXIT = ''AppExit''"

definition CLP_APP_MGR_DBUS_SIGNAL_MESSAGE :: string where
  "CLP_APP_MGR_DBUS_SIGNAL_MESSAGE = ''Message''"

definition CLP_WIN_MGR_DBUS_SIGNAL_UA_GAINED :: string where
  "CLP_WIN_MGR_DBUS_SIGNAL_UA_GAINED = ''UserInteractionGained''"

definition CLP_WIN_MGR_DBUS_SIGNAL_UA_LOST :: string where
  "CLP_WIN_MGR_DBUS_SIGNAL_UA_LOST = ''UserInteractionLost''"

text \<open>The enumeration \<^verbatim>\<open>_ClpAppMgrErrorCodes\<close>; the functions return it as a \<^verbatim>\<open>gint\<close>.\<close>

definition CLP_APP_MGR_FAILURE :: int where
  "CLP_APP_MGR_FAILURE = - 1"

definition CLP_APP_MGR_SUCCESS :: int where
  "CLP_APP_MGR_SUCCESS = 0"

definition CLP_APP_MGR_OUT_OF_MEMORY :: int where
  "CLP_APP_MGR_OUT_OF_MEMORY = 208"

definition CLP_APP_MGR_DBUS_CALL_FAIL :: int where
  "CLP_APP_MGR_DBUS_CALL_FAIL = 209"

text \<open>
  The error codes of the LiMo application manager come from \<^verbatim>\<open>app-manager.h\<close>, a header
  of another package. Their values are parameters of the model.
\<close>

record app_manager_h =
  APPMGR_ERROR_APP_ALREADY_RUNNING :: int
  APPMGR_ERROR_INTERNAL_TRANSPORT_ERROR :: int

text \<open>The delimiter of the argument string: the byte 16.\<close>

definition delim :: string where
  "delim = [CHR 0x10]"


section \<open>Library functions the code calls\<close>

subsection \<open>GLib strings\<close>

text \<open>
  A \<^verbatim>\<open>gchar *\<close> that may be \<^verbatim>\<open>NULL\<close> is a \<^typ>\<open>string option\<close>.

  \<^verbatim>\<open>g_strconcat (s1, ..., NULL)\<close> returns \<^verbatim>\<open>NULL\<close> when its first argument is
  \<^verbatim>\<open>NULL\<close>, and otherwise joins the arguments up to the first \<^verbatim>\<open>NULL\<close>: a \<^verbatim>\<open>NULL\<close>
  pointer in the middle of the argument list ends it.
\<close>

fun g_strconcat_rest :: "string option list \<Rightarrow> string" where
  "g_strconcat_rest [] = []"
| "g_strconcat_rest (None # xs) = []"
| "g_strconcat_rest (Some s # xs) = s @ g_strconcat_rest xs"

fun g_strconcat :: "string option list \<Rightarrow> string option" where
  "g_strconcat [] = None"
| "g_strconcat (None # xs) = None"
| "g_strconcat (Some s # xs) = Some (s @ g_strconcat_rest xs)"

text \<open>
  \<^verbatim>\<open>g_strlcat (dest, src, dest_size)\<close> appends as much of \<^verbatim>\<open>src\<close> as leaves the result
  shorter than \<^verbatim>\<open>dest_size\<close>, and leaves \<^verbatim>\<open>dest\<close> alone when \<^verbatim>\<open>src\<close> is \<^verbatim>\<open>NULL\<close>.
\<close>

definition g_strlcat :: "string \<Rightarrow> string option \<Rightarrow> nat \<Rightarrow> string" where
  "g_strlcat dest src dest_size =
     (case src of
        None \<Rightarrow> dest
      | Some s \<Rightarrow> dest @ take (dest_size - 1 - length dest) s)"

text \<open>
  \<^verbatim>\<open>g_strsplit (s, d, 2)\<close> for a delimiter of one character: at most two tokens, cut at the
  first delimiter; the empty string gives the empty vector.
\<close>

definition g_strsplit_2 :: "string \<Rightarrow> char \<Rightarrow> string list" where
  "g_strsplit_2 s d =
     (if s = [] then []
      else if d \<in> set s
      then [takeWhile (\<lambda>c. c \<noteq> d) s, tl (dropWhile (\<lambda>c. c \<noteq> d) s)]
      else [s])"

text \<open>An entry of a \<^verbatim>\<open>NULL\<close>-terminated vector of strings.\<close>

fun strv_nth :: "string list \<Rightarrow> nat \<Rightarrow> string option" where
  "strv_nth [] i = None"
| "strv_nth (x # xs) 0 = Some x"
| "strv_nth (x # xs) (Suc i) = strv_nth xs i"

text \<open>\<^verbatim>\<open>sprintf (buf, "%d", i)\<close>.\<close>

definition digit_char :: "nat \<Rightarrow> char" where
  "digit_char d = ''0123456789'' ! d"

fun string_of_nat :: "nat \<Rightarrow> string" where
  "string_of_nat n =
     (if n < 10 then [digit_char n]
      else string_of_nat (n div 10) @ [digit_char (n mod 10)])"

declare string_of_nat.simps [simp del]

definition sprintf_d :: "int \<Rightarrow> string" where
  "sprintf_d i =
     (if i < 0 then CHR ''-'' # string_of_nat (nat (- i)) else string_of_nat (nat i))"

subsection \<open>The configuration registry\<close>

datatype gconf_value = GCONF_INT int | GCONF_BOOL bool | GCONF_STRING string

type_synonym gconf = "(string \<times> gconf_value) list"

text \<open>
  A read of an unset key, of a key of another type or of a \<^verbatim>\<open>NULL\<close> key gives 0 or
  \<^verbatim>\<open>FALSE\<close>; the code passes no error pointer it would look at. A write is taken to
  reach the registry; the code does not look at its outcome either.
\<close>

definition gconf_client_get_int :: "gconf \<Rightarrow> string option \<Rightarrow> int" where
  "gconf_client_get_int g key =
     (case key of
        None \<Rightarrow> 0
      | Some k \<Rightarrow> (case map_of g k of Some (GCONF_INT i) \<Rightarrow> i | _ \<Rightarrow> 0))"

definition gconf_client_get_bool :: "gconf \<Rightarrow> string option \<Rightarrow> bool" where
  "gconf_client_get_bool g key =
     (case key of
        None \<Rightarrow> False
      | Some k \<Rightarrow> (case map_of g k of Some (GCONF_BOOL b) \<Rightarrow> b | _ \<Rightarrow> False))"

definition gconf_client_set_int :: "gconf \<Rightarrow> string option \<Rightarrow> int \<Rightarrow> gconf" where
  "gconf_client_set_int g key v =
     (case key of None \<Rightarrow> g | Some k \<Rightarrow> (k, GCONF_INT v) # g)"

subsection \<open>The bus\<close>

datatype DBusConnection = DBUS_BUS_SYSTEM

datatype DBusMessageType = METHOD_CALL | METHOD_RETURN | ERROR_MESSAGE | SIGNAL

datatype DBusArg = DBUS_UINT32 nat | DBUS_INT32 int | DBUS_ARRAY_STRING "string list"

record DBusMessage =
  msg_type :: DBusMessageType
  msg_path :: string
  msg_interface :: string
  msg_member :: string
  msg_body :: "DBusArg list"

datatype DBusHandlerResult = DBUS_HANDLER_RESULT_HANDLED | DBUS_HANDLER_RESULT_NOT_YET_HANDLED

definition dbus_message_is_signal :: "DBusMessage \<Rightarrow> string \<Rightarrow> string \<Rightarrow> bool" where
  "dbus_message_is_signal msg iface signal_name =
     (msg_type msg = SIGNAL \<and> msg_interface msg = iface \<and> msg_member msg = signal_name)"


section \<open>The state of the process and its surroundings\<close>

text \<open>A registered callback is the address of a function of the application.\<close>

type_synonym handler = nat

record ClpAppMgrGlobalInfo =
  pid :: int
  app_id :: int
  inst_id :: int
  app_name :: "string option"
  instance_name :: "string option"
  bus_conn :: "DBusConnection option"
  init_done :: bool
  stop_callback :: "handler option"
  exec_callback :: "handler option"
  rotate_callback :: "handler option"
  death_callback :: "handler option"
  app_focus_gained_callback :: "handler option"
  app_focus_lost_callback :: "handler option"
  message_callback :: "handler option"
  post_init_callback :: "handler option"

text \<open>
  The three static variables of the library (\<^verbatim>\<open>appclient_context\<close>, \<^verbatim>\<open>dbus_interface\<close>,
  \<^verbatim>\<open>dbus_object\<close>) and the registry.
\<close>

record world =
  appclient_context :: ClpAppMgrGlobalInfo
  dbus_interface :: string
  dbus_object :: string
  registry :: gconf

text \<open>The state a process starts in: the static initialisers of the C file.\<close>

definition initial_context :: ClpAppMgrGlobalInfo where
  "initial_context =
     \<lparr> pid = 0, app_id = 0, inst_id = 0, app_name = None, instance_name = None,
       bus_conn = None, init_done = False,
       stop_callback = None, exec_callback = None, rotate_callback = None,
       death_callback = None, app_focus_gained_callback = None,
       app_focus_lost_callback = None, message_callback = None,
       post_init_callback = None \<rparr>"

definition initial_world :: "gconf \<Rightarrow> world" where
  "initial_world g =
     \<lparr> appclient_context = initial_context,
       dbus_interface = CLP_APP_MGR_DBUS_INTERFACE,
       dbus_object = CLP_APP_MGR_DBUS_OBJECT,
       registry = g \<rparr>"

text \<open>
  What the surroundings answer during one call of the library: the process id, whether the
  bus can be reached, what the application manager daemon replies to \<^verbatim>\<open>app_launch_call\<close>
  (the instance id and the error code, or no reply when the call fails), whether a message
  can be allocated and queued.
\<close>

record env =
  getpid :: int
  dbus_bus_get_ok :: bool
  dbus_g_bus_get_ok :: bool
  proxy_new_ok :: bool
  app_launch_reply :: "(int \<times> int) option"
  message_new_ok :: bool
  connection_send_ok :: bool

text \<open>
  What a call does to the outside, in order: connections opened, match rules and filters
  installed, method calls and signals sent, and the callbacks of the application invoked
  with their arguments. A callback is code of the application; the model records the call
  and lets the state of the library alone.
\<close>

datatype event =
    Bus_get
  | Bus_add_match string
  | Connection_add_filter
  | Proxy_call_app_launch int "string option"
  | Connection_send DBusMessage
  | Connection_flush
  | Invoke_post_init handler
  | Invoke_stop handler
  | Invoke_focus_gained handler
  | Invoke_focus_lost handler
  | Invoke_exec handler nat "string list"
  | Invoke_death handler nat
  | Invoke_message handler nat "string list"

text \<open>
  Where the C code leaves the behaviour to chance, the model returns an error.
\<close>

datatype error =
    Read_past_payload
  | Array_overrun
  | Uninitialised_read
  | Indeterminate_va_list


section \<open>Registration\<close>

text \<open>
  \<^verbatim>\<open>CLP_APPMGR_PARAM_ERROR (cond, s)\<close> expands to \<^verbatim>\<open>if (!cond) AMP_LOG_ERROR (s)\<close> or to
  nothing: it logs and goes on, so the two checks at the head of every function leave no
  trace in the model.
\<close>

datatype ClpAppMgrInstanceType = CLP_APP_MGR_SINGLE | CLP_APP_MGR_MULTIPLE

definition match_rule :: "string \<Rightarrow> string" where
  "match_rule iface =
     g_strlcat (g_strlcat (''type='' @ [CHR 0x27] @ ''signal'' @ [CHR 0x27] @ '',interface='' @ [CHR 0x27])
                  (Some iface) MAX_SIZE)
       (Some [CHR 0x27]) MAX_SIZE"

definition clp_app_mgr_init ::
  "env \<Rightarrow> world \<Rightarrow> string \<Rightarrow> nat \<Rightarrow> ClpAppMgrInstanceType \<Rightarrow> int \<times> world \<times> event list" where
  "clp_app_mgr_init e w name priority instance =
     (let split = g_strsplit_2 name (CHR ''.'');
          name0 = strv_nth split 0;
          ctx1 = (appclient_context w)\<lparr> app_name := name0, pid := getpid e \<rparr>;
          iface1 = g_strlcat (g_strlcat (dbus_interface w) (Some ''.'') MAX_SIZE) name0 MAX_SIZE;
          obj1 = g_strlcat (g_strlcat (dbus_object w) (Some ''/'') MAX_SIZE) name0 MAX_SIZE;
          g1 = gconf_client_set_int (registry w)
                 (g_strconcat [Some GCONF_APPS_DIR, Some ''/'', name0, Some ''/info/PID''])
                 (pid ctx1);
          ctx2 = ctx1\<lparr> app_id := gconf_client_get_int g1
                   (g_strconcat [Some GCONF_APPS_DIR, Some ''/'', name0, Some ''/info/AppID'']) \<rparr>;
          ctx3 = ctx2\<lparr> inst_id := gconf_client_get_int g1
                   (g_strconcat [Some GCONF_APPS_DIR, Some ''/'', name0, Some ''/LastInstId'']) \<rparr>;
          appid = sprintf_d (app_id ctx3);
          instance_type = gconf_client_get_bool g1
                   (g_strconcat [Some LIMO_APPS_DIR, Some ''/'', Some appid, Some ''/AppMultiInstance'']);
          instance_id = sprintf_d (inst_id ctx3);
          ctx4 = (if instance_type
                  then ctx3\<lparr> instance_name := g_strconcat [name0, Some '':'', Some instance_id] \<rparr>
                  else ctx3\<lparr> instance_name := name0 \<rparr>);
          iface2 = (if instance_type then g_strlcat iface1 (Some instance_id) MAX_SIZE else iface1);
          obj2 = (if instance_type then g_strlcat obj1 (Some instance_id) MAX_SIZE else obj1);
          w4 = w\<lparr> appclient_context := ctx4, dbus_interface := iface2, dbus_object := obj2,
                  registry := g1 \<rparr>
      in if \<not> dbus_bus_get_ok e
         then (CLP_APP_MGR_DBUS_CALL_FAIL, w4, [Bus_get])
         else
           (CLP_APP_MGR_SUCCESS,
            w4\<lparr> appclient_context := ctx4
                  \<lparr> bus_conn := Some DBUS_BUS_SYSTEM,
                    stop_callback := None, exec_callback := None, rotate_callback := None,
                    death_callback := None, app_focus_gained_callback := None,
                    app_focus_lost_callback := None, message_callback := None,
                    init_done := True \<rparr> \<rparr>,
            [Bus_get,
             Bus_add_match (match_rule iface2),
             Bus_add_match (match_rule CLP_APP_MGR_DBUS_INTERFACE),
             Bus_add_match (match_rule CLP_WIN_MGR_DBUS_INTERFACE),
             Connection_add_filter]))"




definition clp_app_mgr_register_death_handler :: "world \<Rightarrow> handler option \<Rightarrow> world" where
  "clp_app_mgr_register_death_handler w app_death_callback =
     w\<lparr> appclient_context := (appclient_context w)\<lparr> death_callback := app_death_callback \<rparr> \<rparr>"

definition clp_app_mgr_register_stop_handler :: "world \<Rightarrow> handler option \<Rightarrow> world" where
  "clp_app_mgr_register_stop_handler w callback =
     w\<lparr> appclient_context := (appclient_context w)\<lparr> stop_callback := callback \<rparr> \<rparr>"

definition clp_app_mgr_register_exec_handler :: "world \<Rightarrow> handler option \<Rightarrow> world" where
  "clp_app_mgr_register_exec_handler w exec_func =
     w\<lparr> appclient_context := (appclient_context w)\<lparr> exec_callback := exec_func \<rparr> \<rparr>"

definition clp_app_mgr_register_message_handler :: "world \<Rightarrow> handler option \<Rightarrow> world" where
  "clp_app_mgr_register_message_handler w message_handler =
     w\<lparr> appclient_context := (appclient_context w)\<lparr> message_callback := message_handler \<rparr> \<rparr>"


section \<open>Launching\<close>

definition clp_app_mgr_get_app_id :: "world \<Rightarrow> string \<Rightarrow> int" where
  "clp_app_mgr_get_app_id w appname =
     gconf_client_get_int (registry w)
       (g_strconcat [Some GCONF_APPS_DIR, Some ''/'', Some appname, Some ''/info/AppID''])"

definition app_get_dbus_proxy :: "env \<Rightarrow> bool \<times> event list" where
  "app_get_dbus_proxy e =
     (if \<not> dbus_g_bus_get_ok e then (False, [Bus_get])
      else if \<not> proxy_new_ok e then (False, [Bus_get])
      else (True, [Bus_get]))"

text \<open>
  A variable argument list is the list of the strings before the terminating \<^verbatim>\<open>NULL\<close>.
  The callers hand their \<^verbatim>\<open>va_list\<close> to \<^verbatim>\<open>ClpAppMgrAppLaunchWithArgs\<close> and read it
  again after the call, with no \<^verbatim>\<open>va_copy\<close> and no new \<^verbatim>\<open>va_start\<close>. Once the routine
  has called \<^verbatim>\<open>va_arg\<close> on it, C leaves the caller's \<^verbatim>\<open>va_list\<close> indeterminate: what the
  caller reads then is the first argument with one compiler and what lies behind the
  terminating \<^verbatim>\<open>NULL\<close> with another. The routine therefore also returns the state in which
  it leaves the caller's \<^verbatim>\<open>va_list\<close>: untouched, at the first value, when it returns before
  its first \<^verbatim>\<open>va_arg\<close>, and indeterminate otherwise.
\<close>

datatype va_list = Va_start "string list" | Va_indeterminate

text \<open>
  The loop of \<^verbatim>\<open>ClpAppMgrAppLaunchWithArgs\<close>: the first value is copied, every later one is
  appended behind a delimiter; without a value the argument string stays \<^verbatim>\<open>NULL\<close>.
\<close>

fun va_join :: "string list \<Rightarrow> string option" where
  "va_join [] = None"
| "va_join (v # vs) = Some (foldl (\<lambda>args val. args @ delim @ val) v vs)"

text \<open>
  The launch routines return the code, the instance id the daemon wrote (nothing is
  written unless the call is answered) and what went over the bus. The callers pass the
  address of a local variable for the instance id, so the test for a \<^verbatim>\<open>NULL\<close> pointer never
  fires.
\<close>

definition ClpAppMgrAppLaunchWithArgs ::
  "app_manager_h \<Rightarrow> env \<Rightarrow> world \<Rightarrow> int \<Rightarrow> string list
     \<Rightarrow> int \<times> int option \<times> event list \<times> va_list" where
  "ClpAppMgrAppLaunchWithArgs a e w app_id' va_args =
     (if gconf_client_get_bool (registry w) (Some ''/appmgr/Shutdown'')
      then (- 1, None, [], Va_start va_args)
      else
        let args = va_join va_args;
            (ok, evs) = app_get_dbus_proxy e
        in if \<not> ok then (APPMGR_ERROR_INTERNAL_TRANSPORT_ERROR a, None, evs, Va_indeterminate)
           else
             (case app_launch_reply e of
                None \<Rightarrow>
                  (APPMGR_ERROR_INTERNAL_TRANSPORT_ERROR a, None,
                   evs @ [Proxy_call_app_launch app_id' args], Va_indeterminate)
              | Some (inst, error_code) \<Rightarrow>
                  if 0 = error_code
                  then (0, Some inst, evs @ [Proxy_call_app_launch app_id' args],
                        Va_indeterminate)
                  else (error_code, Some inst, evs @ [Proxy_call_app_launch app_id' args],
                        Va_indeterminate)))"

text \<open>
  The loop of \<^verbatim>\<open>ClpAppMgrAppLaunchWithArgv\<close>: it starts from the empty string and appends
  a delimiter and \<^verbatim>\<open>params[i]\<close>, \<^verbatim>\<open>argc\<close> times.
\<close>

fun argv_join :: "string \<Rightarrow> nat \<Rightarrow> string list \<Rightarrow> error + string" where
  "argv_join args 0 ps = Inr args"
| "argv_join args (Suc n) [] = Inl Array_overrun"
| "argv_join args (Suc n) (p # ps) = argv_join (args @ delim @ p) n ps"

definition ClpAppMgrAppLaunchWithArgv ::
  "app_manager_h \<Rightarrow> env \<Rightarrow> world \<Rightarrow> int \<Rightarrow> int \<Rightarrow> string list
     \<Rightarrow> error + (int \<times> int option \<times> event list)" where
  "ClpAppMgrAppLaunchWithArgv a e w app_id' argc params =
     (if gconf_client_get_bool (registry w) (Some ''/appmgr/Shutdown'') then Inr (- 1, None, [])
      else
        case argv_join [] (nat argc) params of
          Inl err \<Rightarrow> Inl err
        | Inr args \<Rightarrow>
            let (ok, evs) = app_get_dbus_proxy e
            in if \<not> ok then Inr (APPMGR_ERROR_INTERNAL_TRANSPORT_ERROR a, None, evs)
               else
                 (case app_launch_reply e of
                    None \<Rightarrow>
                      Inr (APPMGR_ERROR_INTERNAL_TRANSPORT_ERROR a, None,
                           evs @ [Proxy_call_app_launch app_id' (Some args)])
                  | Some (inst, error_code) \<Rightarrow>
                      if 0 = error_code
                      then Inr (0, Some inst, evs @ [Proxy_call_app_launch app_id' (Some args)])
                      else Inr (error_code, Some inst,
                                evs @ [Proxy_call_app_launch app_id' (Some args)])))"

text \<open>
  \<^verbatim>\<open>dbus_bus_get\<close>, \<^verbatim>\<open>dbus_message_new_signal\<close> (no message for a \<^verbatim>\<open>NULL\<close> path or
  interface, or when the library cannot build one) and \<^verbatim>\<open>dbus_connection_send\<close> (nothing
  is queued on a \<^verbatim>\<open>NULL\<close> connection).
\<close>

definition dbus_bus_get :: "env \<Rightarrow> DBusConnection option" where
  "dbus_bus_get e = (if dbus_bus_get_ok e then Some DBUS_BUS_SYSTEM else None)"

definition dbus_message_new_signal ::
  "env \<Rightarrow> string option \<Rightarrow> string option \<Rightarrow> string \<Rightarrow> DBusMessage option" where
  "dbus_message_new_signal e path iface name =
     (case path of
        None \<Rightarrow> None
      | Some p \<Rightarrow>
          (case iface of
             None \<Rightarrow> None
           | Some i \<Rightarrow>
               if message_new_ok e
               then Some \<lparr> msg_type = SIGNAL, msg_path = p, msg_interface = i,
                           msg_member = name, msg_body = [] \<rparr>
               else None))"

definition dbus_connection_send :: "env \<Rightarrow> DBusConnection option \<Rightarrow> bool" where
  "dbus_connection_send e conn =
     (case conn of None \<Rightarrow> False | Some c \<Rightarrow> connection_send_ok e)"

text \<open>
  The variadic launch. After the launch routine it reads a value from its \<^verbatim>\<open>va_list\<close>
  and, in the already-running branch, goes on reading from there: the values are copied
  into \<^verbatim>\<open>params[1]\<close>, \<^verbatim>\<open>params[2]\<close>, ... of an array of \<^verbatim>\<open>NAME_SIZE\<close> pointers,
  counted by \<^verbatim>\<open>no_of_params\<close> from 1; the signal carries the count and the array of the
  application name followed by \<^verbatim>\<open>params[1 .. no_of_params - 1]\<close>. With an indeterminate
  \<^verbatim>\<open>va_list\<close> the values it would copy are not determined, and the model returns the
  error; outside that branch the value read is not used.
\<close>

definition clp_app_mgr_exec ::
  "app_manager_h \<Rightarrow> env \<Rightarrow> world \<Rightarrow> string \<Rightarrow> string list \<Rightarrow> error + (int \<times> event list)" where
  "clp_app_mgr_exec a e w application va_args =
     (let app_id' = clp_app_mgr_get_app_id w application;
          (return_code, inst_id', evs, ap) = ClpAppMgrAppLaunchWithArgs a e w app_id' va_args
      in if return_code = APPMGR_ERROR_APP_ALREADY_RUNNING a
         then
           let app_interface = g_strconcat [Some CLP_APP_MGR_DBUS_INTERFACE, Some ''.'', Some application];
               app_objectpath = g_strconcat [Some CLP_APP_MGR_DBUS_OBJECT, Some ''/'', Some application]
           in case ap of
                Va_indeterminate \<Rightarrow> Inl Indeterminate_va_list
              | Va_start vals \<Rightarrow>
                  if NAME_SIZE \<le> length vals then Inl Array_overrun
                  else
                    let no_of_params = 1 + length vals;
                        params = vals;
                        conn = dbus_bus_get e
                    in case dbus_message_new_signal e app_objectpath app_interface
                              CLP_APP_MGR_DBUS_SIGNAL_EXEC of
                         None \<Rightarrow> Inr (CLP_APP_MGR_DBUS_CALL_FAIL, evs @ [Bus_get])
                       | Some msg0 \<Rightarrow>
                           let msg = msg0\<lparr> msg_body :=
                                 [DBUS_UINT32 no_of_params,
                                  DBUS_ARRAY_STRING
                                    (application # take (no_of_params - 1) params)] \<rparr>
                           in if \<not> dbus_connection_send e conn
                              then Inr (CLP_APP_MGR_OUT_OF_MEMORY, evs @ [Bus_get])
                              else Inr (CLP_APP_MGR_SUCCESS,
                                        evs @ [Bus_get, Connection_send msg, Connection_flush])
         else if return_code \<noteq> 0 then Inr (CLP_APP_MGR_FAILURE, evs)
         else
           (case inst_id' of
              None \<Rightarrow> Inl Uninitialised_read
            | Some i \<Rightarrow>
                if i \<le> 0 then Inr (CLP_APP_MGR_FAILURE, evs)
                else Inr (CLP_APP_MGR_SUCCESS, evs)))"

text \<open>The variant that is handed a \<^verbatim>\<open>va_list\<close>: the same statements.\<close>

definition clp_app_mgr_exec_application ::
  "app_manager_h \<Rightarrow> env \<Rightarrow> world \<Rightarrow> string \<Rightarrow> string list \<Rightarrow> error + (int \<times> event list)" where
  "clp_app_mgr_exec_application a e w application old_ap =
     (let app_id' = clp_app_mgr_get_app_id w application;
          (return_code, inst_id', evs, ap) = ClpAppMgrAppLaunchWithArgs a e w app_id' old_ap
      in if return_code = APPMGR_ERROR_APP_ALREADY_RUNNING a
         then
           let app_interface = g_strconcat [Some CLP_APP_MGR_DBUS_INTERFACE, Some ''.'', Some application];
               app_objectpath = g_strconcat [Some CLP_APP_MGR_DBUS_OBJECT, Some ''/'', Some application]
           in case ap of
                Va_indeterminate \<Rightarrow> Inl Indeterminate_va_list
              | Va_start vals \<Rightarrow>
                  if NAME_SIZE \<le> length vals then Inl Array_overrun
                  else
                    let no_of_params = 1 + length vals;
                        params = vals;
                        conn = dbus_bus_get e
                    in case dbus_message_new_signal e app_objectpath app_interface
                              CLP_APP_MGR_DBUS_SIGNAL_EXEC of
                         None \<Rightarrow> Inr (CLP_APP_MGR_DBUS_CALL_FAIL, evs @ [Bus_get])
                       | Some msg0 \<Rightarrow>
                           let msg = msg0\<lparr> msg_body :=
                                 [DBUS_UINT32 no_of_params,
                                  DBUS_ARRAY_STRING
                                    (application # take (no_of_params - 1) params)] \<rparr>
                           in if \<not> dbus_connection_send e conn
                              then Inr (CLP_APP_MGR_OUT_OF_MEMORY, evs @ [Bus_get])
                              else Inr (CLP_APP_MGR_SUCCESS,
                                        evs @ [Bus_get, Connection_send msg, Connection_flush])
         else if return_code \<noteq> 0 then Inr (CLP_APP_MGR_FAILURE, evs)
         else
           (case inst_id' of
              None \<Rightarrow> Inl Uninitialised_read
            | Some i \<Rightarrow>
                if i \<le> 0 then Inr (CLP_APP_MGR_FAILURE, evs)
                else Inr (CLP_APP_MGR_SUCCESS, evs)))"

text \<open>
  The variant with a count and an array. The signal carries \<^verbatim>\<open>no_of_params + 1\<close> and the
  array of the application name followed by \<^verbatim>\<open>params_list[0 .. no_of_params - 1]\<close>; the
  launch routine has read the same entries before.
\<close>

definition clp_app_mgr_exec_argv ::
  "app_manager_h \<Rightarrow> env \<Rightarrow> world \<Rightarrow> string \<Rightarrow> int \<Rightarrow> string list
     \<Rightarrow> error + (int \<times> event list)" where
  "clp_app_mgr_exec_argv a e w application no_of_params params_list =
     (let app_id' = clp_app_mgr_get_app_id w application
      in case ClpAppMgrAppLaunchWithArgv a e w app_id' no_of_params params_list of
           Inl err \<Rightarrow> Inl err
         | Inr (return_code, inst_id', evs) \<Rightarrow>
             if return_code = APPMGR_ERROR_APP_ALREADY_RUNNING a
             then
               let app_interface = g_strconcat [Some CLP_APP_MGR_DBUS_INTERFACE, Some ''.'', Some application];
                   app_objectpath = g_strconcat [Some CLP_APP_MGR_DBUS_OBJECT, Some ''/'', Some application];
                   conn = dbus_bus_get e
               in case dbus_message_new_signal e app_objectpath app_interface
                         CLP_APP_MGR_DBUS_SIGNAL_EXEC of
                    None \<Rightarrow> Inr (CLP_APP_MGR_DBUS_CALL_FAIL, evs @ [Bus_get])
                  | Some msg0 \<Rightarrow>
                      if int (length params_list) < no_of_params then Inl Array_overrun
                      else
                        let msg = msg0\<lparr> msg_body :=
                              [DBUS_UINT32 (nat ((no_of_params + 1) mod 2 ^ 32)),
                               DBUS_ARRAY_STRING (application # take (nat no_of_params) params_list)] \<rparr>
                        in if \<not> dbus_connection_send e conn
                           then Inr (CLP_APP_MGR_OUT_OF_MEMORY, evs @ [Bus_get])
                           else Inr (CLP_APP_MGR_SUCCESS,
                                     evs @ [Bus_get, Connection_send msg, Connection_flush])
             else if return_code \<noteq> 0 then Inr (CLP_APP_MGR_FAILURE, evs)
             else
               (case inst_id' of
                  None \<Rightarrow> Inl Uninitialised_read
                | Some i \<Rightarrow>
                    if i \<le> 0 then Inr (CLP_APP_MGR_FAILURE, evs)
                    else Inr (CLP_APP_MGR_SUCCESS, evs)))"


section \<open>Dispatch\<close>

text \<open>
  Reading the payload. The filter checks no type and no length: it reads a 32-bit value
  at the first position, and for \<^verbatim>\<open>exec\<close> and \<^verbatim>\<open>Message\<close> it steps to the second
  position, descends into it and reads as many strings as the count says. A payload of
  another shape, or a count beyond the array, makes it read what is not there.
\<close>

fun get_basic_uint :: "DBusArg list \<Rightarrow> nat option" where
  "get_basic_uint (DBUS_UINT32 n # rest) = Some n"
| "get_basic_uint (DBUS_INT32 i # rest) = Some (nat (i mod 2 ^ 32))"
| "get_basic_uint other = None"

fun get_basic_int :: "DBusArg list \<Rightarrow> int option" where
  "get_basic_int (DBUS_INT32 i # rest) = Some i"
| "get_basic_int (DBUS_UINT32 n # rest) =
     Some (if n < 2 ^ 31 then int n else int n - 2 ^ 32)"
| "get_basic_int other = None"

fun read_strings :: "nat \<Rightarrow> string list \<Rightarrow> string list option" where
  "read_strings 0 xs = Some []"
| "read_strings (Suc n) [] = None"
| "read_strings (Suc n) (x # xs) =
     (case read_strings n xs of None \<Rightarrow> None | Some ys \<Rightarrow> Some (x # ys))"

fun recurse_read :: "DBusArg list \<Rightarrow> nat \<Rightarrow> string list option" where
  "recurse_read (first # DBUS_ARRAY_STRING xs # rest) n = read_strings n xs"
| "recurse_read other n = None"

definition invoke_stop :: "ClpAppMgrGlobalInfo \<Rightarrow> event list" where
  "invoke_stop ctx = (case stop_callback ctx of None \<Rightarrow> [] | Some h \<Rightarrow> [Invoke_stop h])"

text \<open>
  The filter. The first test for \<^verbatim>\<open>stop\<close> stands alone; the chain that decides the result
  starts at the second one. In the \<^verbatim>\<open>exec\<close> branch the array of parameters is allocated
  with \<^verbatim>\<open>g_malloc0\<close>, which returns \<^verbatim>\<open>NULL\<close> for a size of 0, and a \<^verbatim>\<open>NULL\<close> result ends
  the filter with "not yet handled".
\<close>

definition message_func ::
  "env \<Rightarrow> world \<Rightarrow> DBusMessage \<Rightarrow> error + (DBusHandlerResult \<times> event list)" where
  "message_func e w msg =
     (let ctx = appclient_context w;
          evs = (if dbus_message_is_signal msg (dbus_interface w) CLP_APP_MGR_DBUS_SIGNAL_STOP
                 then invoke_stop ctx else [])
      in
        if dbus_message_is_signal msg CLP_APP_MGR_DBUS_INTERFACE CLP_APP_MGR_DBUS_SIGNAL_STOP
        then Inr (DBUS_HANDLER_RESULT_HANDLED, evs @ invoke_stop ctx)
        else if dbus_message_is_signal msg CLP_WIN_MGR_DBUS_INTERFACE CLP_WIN_MGR_DBUS_SIGNAL_UA_GAINED
        then
          (case get_basic_int (msg_body msg) of
             None \<Rightarrow> Inl Read_past_payload
           | Some p \<Rightarrow>
               if p = getpid e
               then (case app_focus_gained_callback ctx of
                       None \<Rightarrow> Inr (DBUS_HANDLER_RESULT_HANDLED, evs)
                     | Some h \<Rightarrow> Inr (DBUS_HANDLER_RESULT_HANDLED, evs @ [Invoke_focus_gained h]))
               else Inr (DBUS_HANDLER_RESULT_HANDLED, evs))
        else if dbus_message_is_signal msg CLP_WIN_MGR_DBUS_INTERFACE CLP_WIN_MGR_DBUS_SIGNAL_UA_LOST
        then
          (case get_basic_int (msg_body msg) of
             None \<Rightarrow> Inl Read_past_payload
           | Some p \<Rightarrow>
               if p = getpid e
               then (case app_focus_lost_callback ctx of
                       None \<Rightarrow> Inr (DBUS_HANDLER_RESULT_HANDLED, evs)
                     | Some h \<Rightarrow> Inr (DBUS_HANDLER_RESULT_HANDLED, evs @ [Invoke_focus_lost h]))
               else Inr (DBUS_HANDLER_RESULT_HANDLED, evs))
        else if dbus_message_is_signal msg CLP_APP_MGR_DBUS_INTERFACE CLP_APP_MGR_DBUS_SIGNAL_ROTATE
        then Inr (DBUS_HANDLER_RESULT_HANDLED, evs)
        else if dbus_message_is_signal msg (dbus_interface w) CLP_APP_MGR_DBUS_SIGNAL_EXEC
        then
          (case exec_callback ctx of
             None \<Rightarrow> Inr (DBUS_HANDLER_RESULT_HANDLED, evs)
           | Some h \<Rightarrow>
               (case get_basic_uint (msg_body msg) of
                  None \<Rightarrow> Inl Read_past_payload
                | Some no_of_param \<Rightarrow>
                    if no_of_param = 0 then Inr (DBUS_HANDLER_RESULT_NOT_YET_HANDLED, evs)
                    else
                      (case recurse_read (msg_body msg) no_of_param of
                         None \<Rightarrow> Inl Read_past_payload
                       | Some params_list \<Rightarrow>
                           Inr (DBUS_HANDLER_RESULT_HANDLED,
                                evs @ [Invoke_exec h no_of_param params_list]))))
        else if dbus_message_is_signal msg CLP_APP_MGR_DBUS_INTERFACE CLP_APP_MGR_DBUS_SIGNAL_APPEXIT
        then
          (case death_callback ctx of
             None \<Rightarrow> Inr (DBUS_HANDLER_RESULT_HANDLED, evs)
           | Some h \<Rightarrow>
               (case get_basic_uint (msg_body msg) of
                  None \<Rightarrow> Inl Read_past_payload
                | Some process_id \<Rightarrow>
                    Inr (DBUS_HANDLER_RESULT_HANDLED, evs @ [Invoke_death h process_id])))
        else if dbus_message_is_signal msg (dbus_interface w) CLP_APP_MGR_DBUS_SIGNAL_MESSAGE
        then
          (case message_callback ctx of
             None \<Rightarrow> Inr (DBUS_HANDLER_RESULT_HANDLED, evs)
           | Some h \<Rightarrow>
               (case get_basic_uint (msg_body msg) of
                  None \<Rightarrow> Inl Read_past_payload
                | Some no_of_param \<Rightarrow>
                    if no_of_param = 0
                    then Inr (DBUS_HANDLER_RESULT_HANDLED, evs @ [Invoke_message h 0 []])
                    else
                      (case recurse_read (msg_body msg) no_of_param of
                         None \<Rightarrow> Inl Read_past_payload
                       | Some message_list \<Rightarrow>
                           Inr (DBUS_HANDLER_RESULT_HANDLED,
                                evs @ [Invoke_message h no_of_param message_list]))))
        else Inr (DBUS_HANDLER_RESULT_NOT_YET_HANDLED, evs))"


section \<open>Messaging\<close>

text \<open>
  The arguments are copied into an array of \<^verbatim>\<open>MAX_SIZE\<close> pointers from index 0, counted
  by \<^verbatim>\<open>no_of_param\<close> from 1. The result of \<^verbatim>\<open>dbus_connection_send\<close> is not looked at.
\<close>

definition clp_app_mgr_send_message ::
  "env \<Rightarrow> world \<Rightarrow> string \<Rightarrow> string list \<Rightarrow> error + (int \<times> event list)" where
  "clp_app_mgr_send_message e w application ap =
     (let split = g_strsplit_2 application (CHR '':'');
          dbusinterface = g_strconcat
            [Some CLP_APP_MGR_DBUS_INTERFACE, Some ''.'', strv_nth split 0, strv_nth split 1];
          dbusobject = g_strconcat
            [Some CLP_APP_MGR_DBUS_OBJECT, Some ''/'', strv_nth split 0, strv_nth split 1]
      in case dbus_message_new_signal e dbusobject dbusinterface
                CLP_APP_MGR_DBUS_SIGNAL_MESSAGE of
           None \<Rightarrow> Inr (CLP_APP_MGR_DBUS_CALL_FAIL, [])
         | Some msg0 \<Rightarrow>
             if MAX_SIZE < length ap then Inl Array_overrun
             else
               let message_list = ap;
                   no_of_param = 1 + length ap;
                   msg = msg0\<lparr> msg_body :=
                         [DBUS_UINT32 no_of_param,
                          DBUS_ARRAY_STRING (application # take (no_of_param - 1) message_list)] \<rparr>
               in if dbus_connection_send e (bus_conn (appclient_context w))
                  then Inr (CLP_APP_MGR_SUCCESS, [Connection_send msg])
                  else Inr (CLP_APP_MGR_SUCCESS, []))"


section \<open>Notions used in the statements\<close>

text \<open>
  The flag that \<^const>\<open>clp_app_mgr_init\<close> reads to tell a multi-instance application from a
  single-instance one, as the registry of a registered world holds it.
\<close>

definition AppMultiInstance :: "world \<Rightarrow> bool" where
  "AppMultiInstance w =
     gconf_client_get_bool (registry w)
       (g_strconcat [Some LIMO_APPS_DIR, Some ''/'',
                     Some (sprintf_d (app_id (appclient_context w))),
                     Some ''/AppMultiInstance''])"

definition Shutdown :: "world \<Rightarrow> bool" where
  "Shutdown w = gconf_client_get_bool (registry w) (Some ''/appmgr/Shutdown'')"

text \<open>The signals among the events of a call.\<close>

fun sent_signals :: "event list \<Rightarrow> DBusMessage list" where
  "sent_signals [] = []"
| "sent_signals (Connection_send m # evs) = m # sent_signals evs"
| "sent_signals (ev # evs) = sent_signals evs"


text \<open>The signal of the three launch variants and the signal of the messaging call.\<close>

definition exec_signal :: "string \<Rightarrow> string list \<Rightarrow> DBusMessage" where
  "exec_signal application args =
     \<lparr> msg_type = SIGNAL,
       msg_path = CLP_APP_MGR_DBUS_OBJECT @ ''/'' @ application,
       msg_interface = CLP_APP_MGR_DBUS_INTERFACE @ ''.'' @ application,
       msg_member = CLP_APP_MGR_DBUS_SIGNAL_EXEC,
       msg_body = [DBUS_UINT32 (1 + length args), DBUS_ARRAY_STRING (application # args)] \<rparr>"

definition message_signal :: "string \<Rightarrow> string list \<Rightarrow> DBusMessage" where
  "message_signal application args =
     \<lparr> msg_type = SIGNAL,
       msg_path = CLP_APP_MGR_DBUS_OBJECT @ ''/'' @
         g_strconcat_rest [strv_nth (g_strsplit_2 application (CHR '':'')) 0,
                           strv_nth (g_strsplit_2 application (CHR '':'')) 1],
       msg_interface = CLP_APP_MGR_DBUS_INTERFACE @ ''.'' @
         g_strconcat_rest [strv_nth (g_strsplit_2 application (CHR '':'')) 0,
                           strv_nth (g_strsplit_2 application (CHR '':'')) 1],
       msg_member = CLP_APP_MGR_DBUS_SIGNAL_MESSAGE,
       msg_body = [DBUS_UINT32 (1 + length args), DBUS_ARRAY_STRING (application # args)] \<rparr>"


section \<open>Sample surroundings\<close>

text \<open>
  Concrete surroundings at which the theorems below are instantiated: a bus that works, a
  daemon that launches instance 5, a registry that knows the multi-instance application
  \<^verbatim>\<open>appY\<close> with last instance id 3, and sample values for the two codes of
  \<^verbatim>\<open>app-manager.h\<close>.
\<close>

definition sample_env :: env where
  "sample_env =
     \<lparr> getpid = 1234, dbus_bus_get_ok = True, dbus_g_bus_get_ok = True, proxy_new_ok = True,
       app_launch_reply = Some (5, 0), message_new_ok = True, connection_send_ok = True \<rparr>"

definition sample_codes :: app_manager_h where
  "sample_codes =
     \<lparr> APPMGR_ERROR_APP_ALREADY_RUNNING = - 3, APPMGR_ERROR_INTERNAL_TRANSPORT_ERROR = - 9 \<rparr>"

definition sample_registry :: gconf where
  "sample_registry =
     [(''/appmgr/appY/info/AppID'', GCONF_INT 7),
      (''/appmgr/appY/LastInstId'', GCONF_INT 3),
      (''/LiMo/System/AppInfo/7/AppMultiInstance'', GCONF_BOOL True)]"

text \<open>
  The single-instance application \<^verbatim>\<open>appX\<close> after registration in a fresh process, with an
  exec, a stop and a message handler; and \<^verbatim>\<open>appY\<close> after registration.
\<close>

definition appX_world :: world where
  "appX_world =
     clp_app_mgr_register_message_handler
       (clp_app_mgr_register_stop_handler
          (clp_app_mgr_register_exec_handler
             (fst (snd (clp_app_mgr_init sample_env (initial_world sample_registry) ''appX'' 10
                          CLP_APP_MGR_SINGLE)))
             (Some 77))
          (Some 78))
       (Some 79)"


definition running_env :: env where
  "running_env = sample_env\<lparr> app_launch_reply := Some (0, - 3) \<rparr>"

definition shutdown_world :: world where
  "shutdown_world = initial_world [(''/appmgr/Shutdown'', GCONF_BOOL True)]"


definition appY_world :: world where
  "appY_world =
     fst (snd (clp_app_mgr_init sample_env (initial_world sample_registry) ''appY'' 10
                 CLP_APP_MGR_MULTIPLE))"






section \<open>Auxiliary facts\<close>

lemmas signal_names =
  CLP_APP_MGR_DBUS_SIGNAL_STOP_def CLP_APP_MGR_DBUS_SIGNAL_EXEC_def
  CLP_APP_MGR_DBUS_SIGNAL_ROTATE_def CLP_APP_MGR_DBUS_SIGNAL_APPEXIT_def
  CLP_APP_MGR_DBUS_SIGNAL_MESSAGE_def CLP_WIN_MGR_DBUS_SIGNAL_UA_GAINED_def
  CLP_WIN_MGR_DBUS_SIGNAL_UA_LOST_def

lemmas return_codes =
  CLP_APP_MGR_SUCCESS_def CLP_APP_MGR_FAILURE_def CLP_APP_MGR_OUT_OF_MEMORY_def
  CLP_APP_MGR_DBUS_CALL_FAIL_def

subsection \<open>Reading a payload\<close>

lemma read_strings_take: "n \<le> length xs \<Longrightarrow> read_strings n xs = Some (take n xs)"
  by (induction n xs rule: read_strings.induct) auto

lemma read_strings_all: "read_strings (length xs) xs = Some xs"
  by (simp add: read_strings_take)

subsection \<open>Registration\<close>




lemma init_dbus_interface:
  "dbus_interface (fst (snd (clp_app_mgr_init e w name p i))) =
     (let iface1 = g_strlcat (g_strlcat (dbus_interface w) (Some ''.'') MAX_SIZE)
                     (strv_nth (g_strsplit_2 name (CHR ''.'')) 0) MAX_SIZE
      in if AppMultiInstance (fst (snd (clp_app_mgr_init e w name p i)))
         then g_strlcat iface1
                (Some (sprintf_d (inst_id (appclient_context (fst (snd (clp_app_mgr_init e w name p i)))))))
                MAX_SIZE
         else iface1)"
  by (simp add: clp_app_mgr_init_def Let_def AppMultiInstance_def)

lemma init_dbus_object:
  "dbus_object (fst (snd (clp_app_mgr_init e w name p i))) =
     (let obj1 = g_strlcat (g_strlcat (dbus_object w) (Some ''/'') MAX_SIZE)
                     (strv_nth (g_strsplit_2 name (CHR ''.'')) 0) MAX_SIZE
      in if AppMultiInstance (fst (snd (clp_app_mgr_init e w name p i)))
         then g_strlcat obj1
                (Some (sprintf_d (inst_id (appclient_context (fst (snd (clp_app_mgr_init e w name p i)))))))
                MAX_SIZE
         else obj1)"
  by (simp add: clp_app_mgr_init_def Let_def AppMultiInstance_def)



subsection \<open>Launching\<close>

lemma argv_join_all:
  "argv_join acc (length ps) ps = Inr (acc @ concat (map (\<lambda>p. delim @ p) ps))"
  by (induction ps arbitrary: acc) auto

lemma launch_args_shutdown:
  "Shutdown w \<Longrightarrow> ClpAppMgrAppLaunchWithArgs a e w n args = (- 1, None, [], Va_start args)"
  by (simp add: ClpAppMgrAppLaunchWithArgs_def Shutdown_def)

lemma launch_argv_shutdown:
  "Shutdown w \<Longrightarrow> ClpAppMgrAppLaunchWithArgv a e w n argc ps = Inr (- 1, None, [])"
  by (simp add: ClpAppMgrAppLaunchWithArgv_def Shutdown_def)

lemma launch_args_reply:
  "\<not> Shutdown w \<Longrightarrow> dbus_g_bus_get_ok e \<Longrightarrow> proxy_new_ok e \<Longrightarrow>
   app_launch_reply e = Some (inst, code) \<Longrightarrow>
   ClpAppMgrAppLaunchWithArgs a e w n args =
     (code, Some inst, [Bus_get, Proxy_call_app_launch n (va_join args)], Va_indeterminate)"
  by (simp add: ClpAppMgrAppLaunchWithArgs_def Shutdown_def app_get_dbus_proxy_def Let_def)

lemma launch_argv_reply:
  "\<not> Shutdown w \<Longrightarrow> dbus_g_bus_get_ok e \<Longrightarrow> proxy_new_ok e \<Longrightarrow>
   app_launch_reply e = Some (inst, code) \<Longrightarrow>
   ClpAppMgrAppLaunchWithArgv a e w n (int (length ps)) ps =
     Inr (code, Some inst,
          [Bus_get, Proxy_call_app_launch n (Some (concat (map (\<lambda>p. delim @ p) ps)))])"
  by (simp add: ClpAppMgrAppLaunchWithArgv_def Shutdown_def app_get_dbus_proxy_def argv_join_all)

lemma launch_args_walks_va_list:
  "\<not> Shutdown w \<Longrightarrow>
   snd (snd (snd (ClpAppMgrAppLaunchWithArgs a e w n args))) = Va_indeterminate"
  by (simp add: ClpAppMgrAppLaunchWithArgs_def Shutdown_def app_get_dbus_proxy_def Let_def
      split: option.splits prod.splits)

lemma exec_application_eq:
  "clp_app_mgr_exec_application a e w application args = clp_app_mgr_exec a e w application args"
  by (simp add: clp_app_mgr_exec_application_def clp_app_mgr_exec_def)

text \<open>
  The variadic variants when the application runs already: whatever the arguments, the
  caller reads a \<^verbatim>\<open>va_list\<close> that the launch routine has walked.
\<close>

lemma exec_already_running_rereads_va_list:
  assumes "\<not> Shutdown w" and "dbus_g_bus_get_ok e" and "proxy_new_ok e"
      and "app_launch_reply e = Some (inst, APPMGR_ERROR_APP_ALREADY_RUNNING a)"
  shows "clp_app_mgr_exec a e w application args = Inl Indeterminate_va_list"
    and "clp_app_mgr_exec_application a e w application args = Inl Indeterminate_va_list"
  using assms
  by (simp_all add: clp_app_mgr_exec_def clp_app_mgr_exec_application_def launch_args_reply)

text \<open>A launch that the daemon answers with 0 and a positive instance id.\<close>

lemma exec_cold_launch:
  assumes "\<not> Shutdown w" and "dbus_g_bus_get_ok e" and "proxy_new_ok e"
      and "app_launch_reply e = Some (inst, 0)" and "0 < inst"
      and "APPMGR_ERROR_APP_ALREADY_RUNNING a \<noteq> 0"
  shows "clp_app_mgr_exec a e w application args =
           Inr (CLP_APP_MGR_SUCCESS,
                [Bus_get,
                 Proxy_call_app_launch (clp_app_mgr_get_app_id w application) (va_join args)])"
  using assms
  by (simp add: clp_app_mgr_exec_def launch_args_reply)

lemma exec_argv_cold_launch:
  assumes "\<not> Shutdown w" and "dbus_g_bus_get_ok e" and "proxy_new_ok e"
      and "app_launch_reply e = Some (inst, 0)" and "0 < inst"
      and "APPMGR_ERROR_APP_ALREADY_RUNNING a \<noteq> 0"
  shows "clp_app_mgr_exec_argv a e w application (int (length args)) args =
           Inr (CLP_APP_MGR_SUCCESS,
                [Bus_get,
                 Proxy_call_app_launch (clp_app_mgr_get_app_id w application)
                   (Some (concat (map (\<lambda>p. delim @ p) args)))])"
  using assms
  by (simp add: clp_app_mgr_exec_argv_def launch_argv_reply)

text \<open>
  The variant with a count and an array when the application runs already: the launch
  call and after it exactly one signal, \<^const>\<open>exec_signal\<close>.
\<close>

lemma exec_argv_already_running:
  assumes "\<not> Shutdown w" and "dbus_g_bus_get_ok e" and "proxy_new_ok e"
      and "app_launch_reply e = Some (inst, APPMGR_ERROR_APP_ALREADY_RUNNING a)"
      and "dbus_bus_get_ok e" and "message_new_ok e" and "connection_send_ok e"
      and "length args < 2 ^ 31"
  shows "clp_app_mgr_exec_argv a e w application (int (length args)) args =
           Inr (CLP_APP_MGR_SUCCESS,
                [Bus_get,
                 Proxy_call_app_launch (clp_app_mgr_get_app_id w application)
                   (Some (concat (map (\<lambda>p. delim @ p) args))),
                 Bus_get, Connection_send (exec_signal application args), Connection_flush])"
proof -
  from assms(8) have "int (length args) + 1 < 2 ^ 32" by simp
  then have "(int (length args) + 1) mod 2 ^ 32 = int (length args) + 1" by simp
  then have count: "nat ((int (length args) + 1) mod 2 ^ 32) = Suc (length args)" by simp
  show ?thesis
    using assms(1-7) count
    by (simp add: clp_app_mgr_exec_argv_def launch_argv_reply Let_def dbus_bus_get_def
        dbus_message_new_signal_def dbus_connection_send_def exec_signal_def)
qed

subsection \<open>Signals of a call and their decoding\<close>

lemma sent_signals_append: "sent_signals (xs @ ys) = sent_signals xs @ sent_signals ys"
  by (induction xs rule: sent_signals.induct) auto

lemma send_message_sends:
  assumes "bus_conn (appclient_context w) = Some c"
      and "message_new_ok e" and "connection_send_ok e"
      and "length args \<le> MAX_SIZE"
  shows "clp_app_mgr_send_message e w application args =
           Inr (CLP_APP_MGR_SUCCESS, [Connection_send (message_signal application args)])"
  using assms
  by (simp add: clp_app_mgr_send_message_def Let_def dbus_message_new_signal_def
      dbus_connection_send_def message_signal_def)

lemma decode_exec_signal:
  assumes "exec_callback (appclient_context w) = Some h"
      and "msg_interface (exec_signal application args) = dbus_interface w"
  shows "message_func e w (exec_signal application args) =
           Inr (DBUS_HANDLER_RESULT_HANDLED,
                [Invoke_exec h (1 + length args) (application # args)])"
  using assms read_strings_all[of "application # args"]
  by (simp add: message_func_def dbus_message_is_signal_def exec_signal_def signal_names)

lemma decode_message_signal:
  assumes "message_callback (appclient_context w) = Some k"
      and "msg_interface (message_signal application args) = dbus_interface w"
  shows "message_func e w (message_signal application args) =
           Inr (DBUS_HANDLER_RESULT_HANDLED,
                [Invoke_message k (1 + length args) (application # args)])"
  using assms read_strings_all[of "application # args"]
  by (simp add: message_func_def dbus_message_is_signal_def message_signal_def signal_names)

subsection \<open>The sample surroundings, evaluated\<close>

lemma appX_world_eval:
  "appX_world =
     \<lparr> appclient_context =
         \<lparr> pid = 1234, app_id = 0, inst_id = 0, app_name = Some ''appX'',
           instance_name = Some ''appX'', bus_conn = Some DBUS_BUS_SYSTEM,
           init_done = True, stop_callback = Some 78, exec_callback = Some 77,
           rotate_callback = None, death_callback = None,
           app_focus_gained_callback = None, app_focus_lost_callback = None,
           message_callback = Some 79, post_init_callback = None \<rparr>,
       dbus_interface = ''org.clp.appmanager.appX'',
       dbus_object = ''/org/clp/appmanager/appX'',
       registry =
         [(''/appmgr/appX/info/PID'', GCONF_INT 1234),
          (''/appmgr/appY/info/AppID'', GCONF_INT 7),
          (''/appmgr/appY/LastInstId'', GCONF_INT 3),
          (''/LiMo/System/AppInfo/7/AppMultiInstance'', GCONF_BOOL True)] \<rparr>"
  by code_simp

lemma appY_world_eval:
  "appY_world =
     \<lparr> appclient_context =
         \<lparr> pid = 1234, app_id = 7, inst_id = 3, app_name = Some ''appY'',
           instance_name = Some ''appY:3'', bus_conn = Some DBUS_BUS_SYSTEM,
           init_done = True, stop_callback = None, exec_callback = None,
           rotate_callback = None, death_callback = None,
           app_focus_gained_callback = None, app_focus_lost_callback = None,
           message_callback = None, post_init_callback = None \<rparr>,
       dbus_interface = ''org.clp.appmanager.appY3'',
       dbus_object = ''/org/clp/appmanager/appY3'',
       registry =
         [(''/appmgr/appY/info/PID'', GCONF_INT 1234),
          (''/appmgr/appY/info/AppID'', GCONF_INT 7),
          (''/appmgr/appY/LastInstId'', GCONF_INT 3),
          (''/LiMo/System/AppInfo/7/AppMultiInstance'', GCONF_BOOL True)] \<rparr>"
  by code_simp


section \<open>The dispatch of an exec signal\<close>

text \<open>
  Claim C1, as the code has it. An inbound signal on the own interface with member
  \<^verbatim>\<open>exec\<close> and payload \<open>(n, xs)\<close>, with \<open>0 < n \<le> length xs\<close> and an exec callback
  registered, is handled by one call of the callback with the count \<open>n\<close> and the first
  \<open>n\<close> strings of \<open>xs\<close>. The filter reads the array from its first entry, so the name that
  the sender put at position zero is the first string the callback gets. For the payload
  \<open>(2, [appX, a, b])\<close> the callback gets \<open>(2, [appX, a])\<close>.
\<close>

theorem C1_exec_callback_gets_first_strings:
  assumes "msg_type msg = SIGNAL"
      and "msg_interface msg = dbus_interface w"
      and "msg_member msg = CLP_APP_MGR_DBUS_SIGNAL_EXEC"
      and "msg_body msg = [DBUS_UINT32 n, DBUS_ARRAY_STRING xs]"
      and "0 < n" and "n \<le> length xs"
      and "exec_callback (appclient_context w) = Some h"
  shows "message_func e w msg = Inr (DBUS_HANDLER_RESULT_HANDLED, [Invoke_exec h n (take n xs)])"
  using assms
  by (simp add: message_func_def dbus_message_is_signal_def invoke_stop_def signal_names
      read_strings_take)

text \<open>The theorem at the signal of the claim, received by the registered \<^verbatim>\<open>appX\<close>.\<close>

theorem C1_exec_callback_gets_first_strings_witness:
  "exec_callback (appclient_context appX_world) = Some 77
   \<and> dbus_interface appX_world = ''org.clp.appmanager.appX''
   \<and> (0::nat) < 2 \<and> (2::nat) \<le> length [''appX'', ''a'', ''b'']
   \<and> message_func sample_env appX_world
       \<lparr> msg_type = SIGNAL, msg_path = ''/org/clp/appmanager/appX'',
         msg_interface = ''org.clp.appmanager.appX'', msg_member = ''exec'',
         msg_body = [DBUS_UINT32 2, DBUS_ARRAY_STRING [''appX'', ''a'', ''b'']] \<rparr>
     = Inr (DBUS_HANDLER_RESULT_HANDLED, [Invoke_exec 77 2 [''appX'', ''a'']])"
proof -
  have c: "exec_callback (appclient_context appX_world) = Some 77"
    by (simp add: appX_world_eval)
  have i: "dbus_interface appX_world = ''org.clp.appmanager.appX''"
    by (simp add: appX_world_eval)
  show ?thesis
    using c i
      C1_exec_callback_gets_first_strings
        [of "\<lparr> msg_type = SIGNAL, msg_path = ''/org/clp/appmanager/appX'',
               msg_interface = ''org.clp.appmanager.appX'', msg_member = ''exec'',
               msg_body = [DBUS_UINT32 2, DBUS_ARRAY_STRING [''appX'', ''a'', ''b'']] \<rparr>"
            appX_world 2 "[''appX'', ''a'', ''b'']" 77 sample_env]
    by (simp add: signal_names)
qed

text \<open>
  Claim C1 as it is written fails: at the signal of the claim the callback is called with
  \<open>[appX, a]\<close>, which is not \<open>[a, b]\<close> and contains the name.
\<close>

theorem C1_params_are_not_a_b:
  "message_func sample_env appX_world
     \<lparr> msg_type = SIGNAL, msg_path = ''/org/clp/appmanager/appX'',
       msg_interface = ''org.clp.appmanager.appX'', msg_member = ''exec'',
       msg_body = [DBUS_UINT32 2, DBUS_ARRAY_STRING [''appX'', ''a'', ''b'']] \<rparr>
   = Inr (DBUS_HANDLER_RESULT_HANDLED, [Invoke_exec 77 2 [''appX'', ''a'']])
   \<and> [''appX'', ''a''] \<noteq> [''a'', ''b'']
   \<and> ''appX'' \<in> set [''appX'', ''a'']"
  by code_simp


section \<open>Encoding and decoding\<close>

text \<open>
  Claim C2 at the launch of \<^verbatim>\<open>appX\<close> with the arguments \<^verbatim>\<open>a\<close> and \<^verbatim>\<open>b\<close> while \<^verbatim>\<open>appX\<close>
  runs. The variadic launch has handed its \<^verbatim>\<open>va_list\<close> to the launch routine and reads it
  again for the signal: the strings it encodes are not determined by the arguments it
  was given, so the receiver cannot get them back. The variant with a count and an
  array sends the payload \<open>(3, [appX, a, b])\<close>, and the filter of \<^verbatim>\<open>appX\<close> decodes it to the
  call of the exec callback with 3 and \<open>[appX, a, b]\<close>; a message with the same arguments
  goes the same way through the message callback.
\<close>

theorem C2_variadic_launch_does_not_encode_its_arguments:
  "clp_app_mgr_exec sample_codes running_env (initial_world sample_registry) ''appX''
       [''a'', ''b''] = Inl Indeterminate_va_list
   \<and> clp_app_mgr_exec_argv sample_codes running_env (initial_world sample_registry) ''appX'' 2
       [''a'', ''b''] =
       Inr (CLP_APP_MGR_SUCCESS,
            [Bus_get, Proxy_call_app_launch 0 (Some (CHR 0x10 # ''a'' @ CHR 0x10 # ''b'')), Bus_get,
             Connection_send
               \<lparr> msg_type = SIGNAL, msg_path = ''/org/clp/appmanager/appX'',
                 msg_interface = ''org.clp.appmanager.appX'', msg_member = ''exec'',
                 msg_body = [DBUS_UINT32 3, DBUS_ARRAY_STRING [''appX'', ''a'', ''b'']] \<rparr>,
             Connection_flush])
   \<and> message_func sample_env appX_world
       \<lparr> msg_type = SIGNAL, msg_path = ''/org/clp/appmanager/appX'',
         msg_interface = ''org.clp.appmanager.appX'', msg_member = ''exec'',
         msg_body = [DBUS_UINT32 3, DBUS_ARRAY_STRING [''appX'', ''a'', ''b'']] \<rparr>
     = Inr (DBUS_HANDLER_RESULT_HANDLED, [Invoke_exec 77 3 [''appX'', ''a'', ''b'']])
   \<and> clp_app_mgr_send_message sample_env appY_world ''appX'' [''a'', ''b'']
     = Inr (CLP_APP_MGR_SUCCESS,
            [Connection_send
               \<lparr> msg_type = SIGNAL, msg_path = ''/org/clp/appmanager/appX'',
                 msg_interface = ''org.clp.appmanager.appX'', msg_member = ''Message'',
                 msg_body = [DBUS_UINT32 3, DBUS_ARRAY_STRING [''appX'', ''a'', ''b'']] \<rparr>])
   \<and> message_func sample_env appX_world
       \<lparr> msg_type = SIGNAL, msg_path = ''/org/clp/appmanager/appX'',
         msg_interface = ''org.clp.appmanager.appX'', msg_member = ''Message'',
         msg_body = [DBUS_UINT32 3, DBUS_ARRAY_STRING [''appX'', ''a'', ''b'']] \<rparr>
     = Inr (DBUS_HANDLER_RESULT_HANDLED, [Invoke_message 79 3 [''appX'', ''a'', ''b'']])"
  by code_simp

text \<open>
  The two encoders that do encode their arguments, for every destination and every
  argument list, the empty one included: the signal is sent, and the process whose own
  interface it names decodes the count \<open>1 + length args\<close> and the strings
  \<open>application # args\<close>, the destination name and behind it the list the sender was given.
\<close>

lemma exec_argv_roundtrip:
  assumes "\<not> Shutdown w1" and "dbus_g_bus_get_ok e1" and "proxy_new_ok e1"
      and "app_launch_reply e1 = Some (inst, APPMGR_ERROR_APP_ALREADY_RUNNING a)"
      and "dbus_bus_get_ok e1" and "message_new_ok e1" and "connection_send_ok e1"
      and "length args < 2 ^ 31"
      and "exec_callback (appclient_context w2) = Some h"
      and "dbus_interface w2 = CLP_APP_MGR_DBUS_INTERFACE @ ''.'' @ application"
  shows "clp_app_mgr_exec_argv a e1 w1 application (int (length args)) args =
           Inr (CLP_APP_MGR_SUCCESS,
                [Bus_get,
                 Proxy_call_app_launch (clp_app_mgr_get_app_id w1 application)
                   (Some (concat (map (\<lambda>p. delim @ p) args))),
                 Bus_get, Connection_send (exec_signal application args), Connection_flush])"
    and "message_func e2 w2 (exec_signal application args) =
           Inr (DBUS_HANDLER_RESULT_HANDLED,
                [Invoke_exec h (1 + length args) (application # args)])"
proof -
  show "clp_app_mgr_exec_argv a e1 w1 application (int (length args)) args =
           Inr (CLP_APP_MGR_SUCCESS,
                [Bus_get,
                 Proxy_call_app_launch (clp_app_mgr_get_app_id w1 application)
                   (Some (concat (map (\<lambda>p. delim @ p) args))),
                 Bus_get, Connection_send (exec_signal application args), Connection_flush])"
    using assms(1-8) by (rule exec_argv_already_running)
  show "message_func e2 w2 (exec_signal application args) =
           Inr (DBUS_HANDLER_RESULT_HANDLED,
                [Invoke_exec h (1 + length args) (application # args)])"
    using assms(9,10) by (intro decode_exec_signal) (simp_all add: exec_signal_def)
qed

lemma send_message_roundtrip:
  assumes "bus_conn (appclient_context w1) = Some c"
      and "message_new_ok e1" and "connection_send_ok e1"
      and "length args \<le> MAX_SIZE"
      and "message_callback (appclient_context w2) = Some k"
      and "dbus_interface w2 = msg_interface (message_signal application args)"
  shows "clp_app_mgr_send_message e1 w1 application args =
           Inr (CLP_APP_MGR_SUCCESS, [Connection_send (message_signal application args)])"
    and "message_func e2 w2 (message_signal application args) =
           Inr (DBUS_HANDLER_RESULT_HANDLED,
                [Invoke_message k (1 + length args) (application # args)])"
proof -
  show "clp_app_mgr_send_message e1 w1 application args =
           Inr (CLP_APP_MGR_SUCCESS, [Connection_send (message_signal application args)])"
    using assms(1-4) by (rule send_message_sends)
  show "message_func e2 w2 (message_signal application args) =
           Inr (DBUS_HANDLER_RESULT_HANDLED,
                [Invoke_message k (1 + length args) (application # args)])"
    using assms(5,6) by (intro decode_message_signal) simp_all
qed


section \<open>The signal of a message\<close>

text \<open>
  Claim C3, as the code has it. A call of \<^verbatim>\<open>clp_app_mgr_send_message\<close> with the target
  \<^verbatim>\<open>appY:3\<close> and the one argument \<^verbatim>\<open>ping\<close>, on an open connection that takes the
  message, sends exactly one signal. Its member is \<^verbatim>\<open>Message\<close>; its interface and object
  path are those that a fresh process derives when it registers as \<^verbatim>\<open>appY\<close>, a
  multi-instance application with instance id 3; its payload is the count 2 (the name
  counts) and the array \<open>[appY:3, ping]\<close>.
\<close>

theorem C3_message_signal_counts_the_name:
  assumes "bus_conn (appclient_context w) = Some c"
      and "message_new_ok e" and "connection_send_ok e"
      and "w' = fst (snd (clp_app_mgr_init e' (initial_world g) ''appY'' p i))"
      and "AppMultiInstance w'"
      and "inst_id (appclient_context w') = 3"
  shows "clp_app_mgr_send_message e w ''appY:3'' [''ping''] =
           Inr (CLP_APP_MGR_SUCCESS,
                [Connection_send
                   \<lparr> msg_type = SIGNAL, msg_path = dbus_object w',
                     msg_interface = dbus_interface w',
                     msg_member = CLP_APP_MGR_DBUS_SIGNAL_MESSAGE,
                     msg_body = [DBUS_UINT32 2, DBUS_ARRAY_STRING [''appY:3'', ''ping'']] \<rparr>])"
proof -
  have three: "sprintf_d 3 = ''3''"
    by (simp add: sprintf_d_def string_of_nat.simps[of 3] digit_char_def)
  have i: "dbus_interface w' = ''org.clp.appmanager.appY3''"
    using assms(5,6) unfolding assms(4)
    by (simp add: init_dbus_interface Let_def three g_strsplit_2_def g_strlcat_def MAX_SIZE_def
        initial_world_def CLP_APP_MGR_DBUS_INTERFACE_def)
  have ob: "dbus_object w' = ''/org/clp/appmanager/appY3''"
    using assms(5,6) unfolding assms(4)
    by (simp add: init_dbus_object Let_def three g_strsplit_2_def g_strlcat_def MAX_SIZE_def
        initial_world_def CLP_APP_MGR_DBUS_OBJECT_def)
  show ?thesis
    using assms(1-3)
    by (simp add: i ob clp_app_mgr_send_message_def Let_def g_strsplit_2_def
        dbus_message_new_signal_def dbus_connection_send_def MAX_SIZE_def
        CLP_APP_MGR_DBUS_INTERFACE_def CLP_APP_MGR_DBUS_OBJECT_def)
qed

text \<open>The theorem with the registered \<^verbatim>\<open>appX\<close> as the sender and the registered \<^verbatim>\<open>appY\<close>.\<close>

theorem C3_message_signal_counts_the_name_witness:
  "bus_conn (appclient_context appX_world) = Some DBUS_BUS_SYSTEM
   \<and> message_new_ok sample_env \<and> connection_send_ok sample_env
   \<and> AppMultiInstance appY_world
   \<and> inst_id (appclient_context appY_world) = 3
   \<and> clp_app_mgr_send_message sample_env appX_world ''appY:3'' [''ping''] =
       Inr (CLP_APP_MGR_SUCCESS,
            [Connection_send
               \<lparr> msg_type = SIGNAL, msg_path = dbus_object appY_world,
                 msg_interface = dbus_interface appY_world,
                 msg_member = CLP_APP_MGR_DBUS_SIGNAL_MESSAGE,
                 msg_body = [DBUS_UINT32 2, DBUS_ARRAY_STRING [''appY:3'', ''ping'']] \<rparr>])"
proof -
  have b: "bus_conn (appclient_context appX_world) = Some DBUS_BUS_SYSTEM"
    by (simp add: appX_world_eval)
  have n: "message_new_ok sample_env" and s: "connection_send_ok sample_env"
    by (simp_all add: sample_env_def)
  have m: "AppMultiInstance appY_world"
    by code_simp
  have k: "inst_id (appclient_context appY_world) = 3"
    by (simp add: appY_world_eval)
  from b n s m k
    C3_message_signal_counts_the_name[OF b n s appY_world_def m k]
  show ?thesis by simp
qed

text \<open>
  Claim C3 as it is written fails: the count of the payload is 2, not 1.
\<close>

theorem C3_count_is_not_one:
  "clp_app_mgr_send_message sample_env appX_world ''appY:3'' [''ping''] =
     Inr (CLP_APP_MGR_SUCCESS,
          [Connection_send
             \<lparr> msg_type = SIGNAL, msg_path = ''/org/clp/appmanager/appY3'',
               msg_interface = ''org.clp.appmanager.appY3'', msg_member = ''Message'',
               msg_body = [DBUS_UINT32 2, DBUS_ARRAY_STRING [''appY:3'', ''ping'']] \<rparr>])
   \<and> [DBUS_UINT32 2, DBUS_ARRAY_STRING [''appY:3'', ''ping'']]
       \<noteq> [DBUS_UINT32 1, DBUS_ARRAY_STRING [''appY:3'', ''ping'']]"
  by code_simp


section \<open>Launching an application that runs, or a new one\<close>

text \<open>
  Claim C4 at the launch of \<^verbatim>\<open>calendar\<close> with the argument \<^verbatim>\<open>2024-01-01\<close>. When the daemon
  answers that \<^verbatim>\<open>calendar\<close> runs already, the variadic launch and the launch with a
  \<^verbatim>\<open>va_list\<close> read, for the signal, the \<^verbatim>\<open>va_list\<close> that the launch routine has walked:
  the payload they send is not determined by the arguments. The launch with a count and
  an array sends the launch call and after it exactly one signal with member \<^verbatim>\<open>exec\<close> and
  payload \<open>(2, [calendar, 2024-01-01])\<close>. When the daemon launches instance 5, the variadic
  launch sends the launch call and no signal.
\<close>

theorem C4_variadic_launch_rereads_its_va_list:
  "clp_app_mgr_exec sample_codes running_env (initial_world sample_registry) ''calendar''
       [''2024-01-01''] = Inl Indeterminate_va_list
   \<and> clp_app_mgr_exec_application sample_codes running_env (initial_world sample_registry)
       ''calendar'' [''2024-01-01''] = Inl Indeterminate_va_list
   \<and> clp_app_mgr_exec_argv sample_codes running_env (initial_world sample_registry) ''calendar''
       1 [''2024-01-01''] =
       Inr (CLP_APP_MGR_SUCCESS,
            [Bus_get, Proxy_call_app_launch 0 (Some (CHR 0x10 # ''2024-01-01'')), Bus_get,
             Connection_send
               \<lparr> msg_type = SIGNAL, msg_path = ''/org/clp/appmanager/calendar'',
                 msg_interface = ''org.clp.appmanager.calendar'', msg_member = ''exec'',
                 msg_body = [DBUS_UINT32 2, DBUS_ARRAY_STRING [''calendar'', ''2024-01-01'']] \<rparr>,
             Connection_flush])
   \<and> clp_app_mgr_exec sample_codes sample_env (initial_world sample_registry) ''calendar''
       [''2024-01-01''] =
       Inr (CLP_APP_MGR_SUCCESS, [Bus_get, Proxy_call_app_launch 0 (Some ''2024-01-01'')])"
  by code_simp


section \<open>Launching during shutdown\<close>

text \<open>
  Claim C5. While the shutdown flag of the registry is set, the launch routines return
  \<open>- 1\<close> before they touch the bus, and every launch variant returns
  \<^verbatim>\<open>CLP_APP_MGR_FAILURE\<close> with no event at all: no connection opened, no launch call, no
  signal. The code of an application that runs already is a constant of another package;
  it is taken to differ from \<open>- 1\<close>, the value the flag yields.
\<close>

theorem C5_shutdown_fails_without_bus_traffic:
  assumes "Shutdown w" and "APPMGR_ERROR_APP_ALREADY_RUNNING a \<noteq> - 1"
  shows "ClpAppMgrAppLaunchWithArgs a e w n args = (- 1, None, [], Va_start args)
       \<and> ClpAppMgrAppLaunchWithArgv a e w n argc params = Inr (- 1, None, [])
       \<and> clp_app_mgr_exec a e w application args = Inr (CLP_APP_MGR_FAILURE, [])
       \<and> clp_app_mgr_exec_application a e w application args = Inr (CLP_APP_MGR_FAILURE, [])
       \<and> clp_app_mgr_exec_argv a e w application argc params = Inr (CLP_APP_MGR_FAILURE, [])"
  using assms
  by (simp add: clp_app_mgr_exec_def clp_app_mgr_exec_application_def clp_app_mgr_exec_argv_def
      launch_args_shutdown launch_argv_shutdown)

text \<open>The theorem at a registry whose shutdown flag is set.\<close>

theorem C5_shutdown_fails_without_bus_traffic_witness:
  "Shutdown shutdown_world
   \<and> APPMGR_ERROR_APP_ALREADY_RUNNING sample_codes \<noteq> - 1
   \<and> clp_app_mgr_exec sample_codes sample_env shutdown_world ''calendar'' [''2024-01-01'']
       = Inr (CLP_APP_MGR_FAILURE, [])
   \<and> clp_app_mgr_exec_application sample_codes sample_env shutdown_world ''calendar''
       [''2024-01-01''] = Inr (CLP_APP_MGR_FAILURE, [])
   \<and> clp_app_mgr_exec_argv sample_codes sample_env shutdown_world ''calendar'' 1 [''2024-01-01'']
       = Inr (CLP_APP_MGR_FAILURE, [])"
proof -
  have sh: "Shutdown shutdown_world"
    by code_simp
  have ne: "APPMGR_ERROR_APP_ALREADY_RUNNING sample_codes \<noteq> - 1"
    by (simp add: sample_codes_def)
  from sh ne
    C5_shutdown_fails_without_bus_traffic[OF sh ne, of sample_env 0 "[''2024-01-01'']" 1 "[''2024-01-01'']" "''calendar''"]
  show ?thesis by simp
qed


section \<open>The three launch variants\<close>

text \<open>
  Claim C7 at the launch of \<^verbatim>\<open>calendar\<close> with the argument \<^verbatim>\<open>2024-01-01\<close>: the variadic
  variant sends the daemon the argument string \<^verbatim>\<open>2024-01-01\<close>, the variant with a count
  and an array sends the delimiter byte followed by \<^verbatim>\<open>2024-01-01\<close>. The loop of
  \<^verbatim>\<open>ClpAppMgrAppLaunchWithArgv\<close> starts from the empty string and puts a delimiter before
  every argument, the first one included; the loop of \<^verbatim>\<open>ClpAppMgrAppLaunchWithArgs\<close> puts
  it between the arguments.
\<close>

theorem C7_argv_variant_sends_another_argument_string:
  "clp_app_mgr_exec sample_codes sample_env (initial_world sample_registry) ''calendar''
       [''2024-01-01''] =
     Inr (CLP_APP_MGR_SUCCESS, [Bus_get, Proxy_call_app_launch 0 (Some ''2024-01-01'')])
   \<and> clp_app_mgr_exec_argv sample_codes sample_env (initial_world sample_registry) ''calendar''
       1 [''2024-01-01''] =
     Inr (CLP_APP_MGR_SUCCESS,
          [Bus_get, Proxy_call_app_launch 0 (Some (CHR 0x10 # ''2024-01-01''))])
   \<and> ''2024-01-01'' \<noteq> CHR 0x10 # ''2024-01-01''"
  by code_simp


section \<open>Registration when the bus cannot be reached\<close>





section \<open>Asynchronous registration\<close>




section \<open>The instance name and the derived address\<close>





section \<open>A stop signal on the own interface\<close>

text \<open>
  Claim C10. An inbound signal with member \<^verbatim>\<open>stop\<close> on the own interface of the process,
  when that interface is not the interface of the application manager itself and a stop
  callback is registered, calls the stop callback once, and the filter returns "not yet
  handled": the first test for \<^verbatim>\<open>stop\<close> is outside the chain whose last branch decides
  that result.
\<close>

theorem C10_own_stop_is_invoked_and_not_handled:
  assumes "msg_type msg = SIGNAL"
      and "msg_interface msg = dbus_interface w"
      and "msg_member msg = CLP_APP_MGR_DBUS_SIGNAL_STOP"
      and "dbus_interface w \<noteq> CLP_APP_MGR_DBUS_INTERFACE"
      and "stop_callback (appclient_context w) = Some h"
  shows "message_func e w msg = Inr (DBUS_HANDLER_RESULT_NOT_YET_HANDLED, [Invoke_stop h])"
  using assms
  by (simp add: message_func_def dbus_message_is_signal_def invoke_stop_def signal_names)

text \<open>The theorem at a stop signal on the interface of the registered \<^verbatim>\<open>appX\<close>.\<close>

theorem C10_own_stop_is_invoked_and_not_handled_witness:
  "dbus_interface appX_world \<noteq> CLP_APP_MGR_DBUS_INTERFACE
   \<and> stop_callback (appclient_context appX_world) = Some 78
   \<and> message_func sample_env appX_world
       \<lparr> msg_type = SIGNAL, msg_path = ''/org/clp/appmanager/appX'',
         msg_interface = ''org.clp.appmanager.appX'', msg_member = ''stop'', msg_body = [] \<rparr>
     = Inr (DBUS_HANDLER_RESULT_NOT_YET_HANDLED, [Invoke_stop 78])"
proof -
  have d: "dbus_interface appX_world \<noteq> CLP_APP_MGR_DBUS_INTERFACE"
    by (simp add: appX_world_eval CLP_APP_MGR_DBUS_INTERFACE_def)
  have s: "stop_callback (appclient_context appX_world) = Some 78"
    by (simp add: appX_world_eval)
  show ?thesis
    using d s
      C10_own_stop_is_invoked_and_not_handled
        [of "\<lparr> msg_type = SIGNAL, msg_path = ''/org/clp/appmanager/appX'',
               msg_interface = ''org.clp.appmanager.appX'', msg_member = ''stop'',
               msg_body = [] \<rparr>"
            appX_world 78 sample_env]
    by (simp add: appX_world_eval signal_names)
qed

end
